theory Spec2Isabelle
  imports Main
begin

section \<open>JavaScript values and errors\<close>

text \<open>
  An \<^verbatim>\<open>Error\<close> object as the program can observe it: its constructor name, its
  \<^verbatim>\<open>message\<close>, and the two extra fields that the runtime and the HTTP
  client attach (\<^verbatim>\<open>err.code\<close> for file-system and argument errors,
  \<^verbatim>\<open>err.status\<close> for HTTP errors).
\<close>

record js_error =
  name :: string
  message :: string
  errcode :: "string option"
  errstatus :: "nat option"

text \<open>
  The values that flow through the program: what \<^verbatim>\<open>JSON.parse\<close> can
  produce, \<^verbatim>\<open>undefined\<close>, and error objects (they are passed to
  \<^verbatim>\<open>console.error\<close>). Numbers are never inspected by the program; only
  integral ones are represented.
\<close>

datatype jsval =
    JUndefined
  | JNull
  | JBool bool
  | JNumber int
  | JString string
  | JArray "jsval list"
  | JObject "(string \<times> jsval) list"
  | JError js_error

text \<open>\<^verbatim>\<open>new Error(msg)\<close>: a fresh error that has a message and nothing else.\<close>

definition new_Error :: "string \<Rightarrow> js_error" where
  "new_Error msg = \<lparr>name = ''Error'', message = msg, errcode = None, errstatus = None\<rparr>"

definition TypeError :: "string \<Rightarrow> js_error" where
  "TypeError msg = \<lparr>name = ''TypeError'', message = msg, errcode = None, errstatus = None\<rparr>"

text \<open>
  The property read \<^verbatim>\<open>v.message\<close>. Reading a property of \<^verbatim>\<open>undefined\<close>
  or \<^verbatim>\<open>null\<close> throws a \<^verbatim>\<open>TypeError\<close>; an object yields the field or
  \<^verbatim>\<open>undefined\<close>; primitives and arrays have no such property.
\<close>

fun prop_message :: "jsval \<Rightarrow> js_error + jsval" where
  "prop_message JUndefined =
     Inl (TypeError ''Cannot read properties of undefined (reading 'message')'')"
| "prop_message JNull =
     Inl (TypeError ''Cannot read properties of null (reading 'message')'')"
| "prop_message (JObject kvs) =
     Inr (case map_of kvs ''message'' of Some v \<Rightarrow> v | None \<Rightarrow> JUndefined)"
| "prop_message (JError e) = Inr (JString (message e))"
| "prop_message (JBool b) = Inr JUndefined"
| "prop_message (JNumber n) = Inr JUndefined"
| "prop_message (JString s) = Inr JUndefined"
| "prop_message (JArray vs) = Inr JUndefined"

section \<open>The world outside the program\<close>

text \<open>
  The three operations the program asks of its environment, with the arguments the program
  hands over (for a request, the URL string given to the HTTP client; what the client puts
  on the wire is its own business), and the two moments of each one that an observer can
  see: the call being made, and the call being over (its callback delivered, or an exception
  thrown by the call itself).
\<close>

datatype call =
    ReadFile string
  | HttpGet string
  | WriteFile string jsval

datatype event = Started call | Settled call

datatype console_line = Console_log "jsval list" | Console_error "jsval list"

text \<open>
  The mutable world: the content of every file, the events so far, the console so far.
\<close>

record world =
  files :: "string \<rightharpoonup> string"
  trace :: "event list"
  console :: "console_line list"

text \<open>
  An HTTP response as the client sees it: the status, the \<^verbatim>\<open>Location\<close>
  header (if any), and the JSON body, parsed.
\<close>

record http_response =
  status :: nat
  location :: "string option"
  body :: jsval

text \<open>
  A write can fail before the file is opened (no permission, no such directory), and then
  the file is untouched; or after it was opened with flag \<^verbatim>\<open>w\<close>, which has
  created or emptied it (disk full, I/O error), and then the file holds what was written
  before the fault, possibly nothing.
\<close>

datatype write_failure =
    Open_failed js_error
  | Write_failed js_error string

text \<open>
  What stays the same during a run: the directory of the script
  (\<^verbatim>\<open>__dirname\<close>); the I/O faults of the file system other than a missing
  file; the HTTP server, which answers a GET of a URL with a transport or parse error or
  with a response; how the runtime resolves a \<^verbatim>\<open>Location\<close> header against the
  URL of the request (\<^verbatim>\<open>new URL(location, url).href\<close>); the table
  \<^verbatim>\<open>http.STATUS_CODES\<close> of reason phrases; and how the runtime describes, in an
  error message, a value that is neither \<^verbatim>\<open>undefined\<close> nor
  \<^verbatim>\<open>null\<close> (by the name of its constructor, or by its type and its rendering).
\<close>

record env =
  dirname :: string
  read_fault :: "string \<Rightarrow> js_error option"
  write_fault :: "string \<Rightarrow> string \<Rightarrow> write_failure option"
  server :: "string \<Rightarrow> js_error + http_response"
  resolve_location :: "string \<Rightarrow> string \<Rightarrow> string"
  STATUS_CODES :: "nat \<Rightarrow> string option"
  describe_value :: "jsval \<Rightarrow> string"

section \<open>Computations: state, exceptions, promises\<close>

text \<open>
  A piece of JavaScript is a function of the world that returns the new world and either
  the value it evaluates to (\<open>Inr\<close>) or the exception it throws (\<open>Inl\<close>).
\<close>

type_synonym 'a io = "world \<Rightarrow> (js_error + 'a) \<times> world"

definition io_return :: "'a \<Rightarrow> 'a io" where
  "io_return x = (\<lambda>w. (Inr x, w))"

definition io_throw :: "js_error \<Rightarrow> 'a io" where
  "io_throw e = (\<lambda>w. (Inl e, w))"

text \<open>An expression that touches nothing but may throw.\<close>

definition io_eval :: "js_error + 'a \<Rightarrow> 'a io" where
  "io_eval r = (\<lambda>w. (r, w))"

text \<open>Statement sequencing: an exception skips the rest.\<close>

definition io_bind :: "'a io \<Rightarrow> ('a \<Rightarrow> 'b io) \<Rightarrow> 'b io" where
  "io_bind m k = (\<lambda>w. case m w of (Inl e, w') \<Rightarrow> (Inl e, w') | (Inr x, w') \<Rightarrow> k x w')"

text \<open>\<^verbatim>\<open>try { m } catch (err) { h(err) }\<close>\<close>

definition io_catch :: "'a io \<Rightarrow> (js_error \<Rightarrow> 'a io) \<Rightarrow> 'a io" where
  "io_catch m h = (\<lambda>w. case m w of (Inl e, w') \<Rightarrow> h e w' | (Inr x, w') \<Rightarrow> (Inr x, w'))"

definition emit :: "event \<Rightarrow> unit io" where
  "emit ev = (\<lambda>w. (Inr (), w\<lparr>trace := trace w @ [ev]\<rparr>))"

definition console_log :: "jsval list \<Rightarrow> unit io" where
  "console_log args = (\<lambda>w. (Inr (), w\<lparr>console := console w @ [Console_log args]\<rparr>))"

definition console_error :: "jsval list \<Rightarrow> unit io" where
  "console_error args = (\<lambda>w. (Inr (), w\<lparr>console := console w @ [Console_error args]\<rparr>))"

text \<open>
  An operation in flight: which call it is, and what the environment will hand to its
  callback when it completes (together with the effect of the operation on the world).
\<close>

datatype 'r operation = Operation call "world \<Rightarrow> 'r \<times> world"

text \<open>
  A promise is either rejected already (its executor threw), or waits for an operation in
  flight and will settle with what the executor's callback makes of the outcome.
\<close>

datatype 'a promise =
    Rejected js_error
  | Pending call "world \<Rightarrow> (js_error + 'a) \<times> world"

text \<open>
  \<^verbatim>\<open>new Promise((resolve, reject) => { start(..., cb) })\<close>: the executor runs at
  once. If the call it makes throws, the promise is rejected; otherwise the operation is
  in flight and the promise settles with what \<open>cb\<close> does with the outcome
  (\<open>Inl\<close> is \<^verbatim>\<open>reject\<close>, \<open>Inr\<close> is \<^verbatim>\<open>resolve\<close>).
\<close>

definition new_Promise :: "'r operation io \<Rightarrow> ('r \<Rightarrow> js_error + 'a) \<Rightarrow> 'a promise io" where
  "new_Promise start cb = (\<lambda>w.
     case start w of
       (Inl e, w') \<Rightarrow> (Inr (Rejected e), w')
     | (Inr (Operation c outcome), w') \<Rightarrow>
         (Inr (Pending c (\<lambda>w2. case outcome w2 of (r, w3) \<Rightarrow> (cb r, w3))), w'))"

text \<open>
  \<^verbatim>\<open>await p\<close>: the function is suspended until the promise settles; the operation
  the promise waits for completes in the meantime. A rejection is thrown at the
  \<^verbatim>\<open>await\<close>.
\<close>

fun await :: "'a promise \<Rightarrow> 'a io" where
  "await (Rejected e) = io_throw e"
| "await (Pending c settle) =
     (\<lambda>w. case settle w of (r, w') \<Rightarrow> (r, w'\<lparr>trace := trace w' @ [Settled c]\<rparr>))"

text \<open>\<^verbatim>\<open>await f(...)\<close>: evaluate the call, then wait for the promise it returns.\<close>

definition await_io :: "'a promise io \<Rightarrow> 'a io" where
  "await_io m = io_bind m await"

text \<open>
  \<^verbatim>\<open>start(..., cb)\<close> in callback style, as the last statement of its function:
  the operation is started, nothing else runs until it completes, and then \<open>cb\<close> runs
  on the outcome. An exception of \<open>cb\<close> is not caught by anyone.
\<close>

definition on_completion :: "'r operation io \<Rightarrow> ('r \<Rightarrow> unit io) \<Rightarrow> unit io" where
  "on_completion start cb =
     io_bind start (\<lambda>op. case op of Operation c outcome \<Rightarrow>
       (\<lambda>w. case outcome w of (r, w') \<Rightarrow> cb r (w'\<lparr>trace := trace w' @ [Settled c]\<rparr>)))"

section \<open>The runtime: \<^verbatim>\<open>fs\<close> and \<^verbatim>\<open>superagent\<close>\<close>

text \<open>
  The two errors of the runtime that the program can meet without any fault of the
  environment: a file that does not exist, and data that \<^verbatim>\<open>fs.writeFile\<close>
  refuses. The message of the second names the argument in double quotes and ends with
  the value received: \<^verbatim>\<open>Received undefined\<close>, \<^verbatim>\<open>Received null\<close>, or
  the runtime's description of any other value.
\<close>

definition ENOENT :: "string \<Rightarrow> js_error" where
  "ENOENT file =
     \<lparr>name = ''Error'', message = ''ENOENT: no such file or directory, open '' @ [CHR 0x27] @ file @ [CHR 0x27],
      errcode = Some ''ENOENT'', errstatus = None\<rparr>"

fun received :: "env \<Rightarrow> jsval \<Rightarrow> string" where
  "received env JUndefined = ''undefined''"
| "received env JNull = ''null''"
| "received env v = describe_value env v"

definition ERR_INVALID_ARG_TYPE :: "env \<Rightarrow> jsval \<Rightarrow> js_error" where
  "ERR_INVALID_ARG_TYPE env data =
     \<lparr>name = ''TypeError'',
      message = ''The '' @ [CHR 0x22] @ ''data'' @ [CHR 0x22] @
        '' argument must be of type string or an instance of Buffer, TypedArray, or DataView. Received '' @
        received env data,
      errcode = Some ''ERR_INVALID_ARG_TYPE'', errstatus = None\<rparr>"

text \<open>
  What \<^verbatim>\<open>fs.readFile(file, "utf8", cb)\<close> hands to \<open>cb\<close> as
  \<^verbatim>\<open>(err, data)\<close>: an I/O fault, a missing file, or the decoded content.
\<close>

definition fs_read_outcome :: "env \<Rightarrow> string \<Rightarrow> world \<Rightarrow> js_error + string" where
  "fs_read_outcome env file w =
     (case read_fault env file of
        Some e \<Rightarrow> Inl e
      | None \<Rightarrow> (case files w file of None \<Rightarrow> Inl (ENOENT file) | Some s \<Rightarrow> Inr s))"

definition fs_readFile :: "env \<Rightarrow> string \<Rightarrow> (js_error + string) operation io" where
  "fs_readFile env file =
     io_bind (emit (Started (ReadFile file))) (\<lambda>_.
     io_return (Operation (ReadFile file) (\<lambda>w. (fs_read_outcome env file w, w))))"

text \<open>
  \<^verbatim>\<open>fs.writeFile(file, data, cb)\<close> with the default flag \<^verbatim>\<open>w\<close>: data that
  is not a string (or a buffer, which no value of this program is) makes the call throw
  before any I/O (Node.js 14 and later, which the HTTP client requires); a string replaces
  the content of the file, unless an I/O fault is handed to \<open>cb\<close> instead, and then
  the file is as the fault left it.
\<close>

fun fault_error :: "write_failure \<Rightarrow> js_error" where
  "fault_error (Open_failed e) = e"
| "fault_error (Write_failed e written) = e"

fun fault_leaves :: "write_failure \<Rightarrow> string \<Rightarrow> (string \<rightharpoonup> string) \<Rightarrow> (string \<rightharpoonup> string)" where
  "fault_leaves (Open_failed e) file fs = fs"
| "fault_leaves (Write_failed e written) file fs = fs(file \<mapsto> written)"

definition fs_write_outcome :: "env \<Rightarrow> string \<Rightarrow> string \<Rightarrow> world \<Rightarrow> js_error option \<times> world" where
  "fs_write_outcome env file s w =
     (case write_fault env file s of
        Some f \<Rightarrow> (Some (fault_error f), w\<lparr>files := fault_leaves f file (files w)\<rparr>)
      | None \<Rightarrow> (None, w\<lparr>files := (files w)(file \<mapsto> s)\<rparr>))"

definition fs_writeFile :: "env \<Rightarrow> string \<Rightarrow> jsval \<Rightarrow> js_error option operation io" where
  "fs_writeFile env file data =
     io_bind (emit (Started (WriteFile file data))) (\<lambda>_.
       case data of
         JString s \<Rightarrow>
           io_return (Operation (WriteFile file data) (fs_write_outcome env file s))
       | _ \<Rightarrow>
           io_bind (emit (Settled (WriteFile file data))) (\<lambda>_.
           io_throw (ERR_INVALID_ARG_TYPE env data)))"

text \<open>
  The HTTP client. \<^verbatim>\<open>superagent.get(url)\<close> only builds a request; it is sent
  when \<^verbatim>\<open>.end(cb)\<close> is called, and \<^verbatim>\<open>await\<close> on the request calls
  \<^verbatim>\<open>.then\<close>, which wraps \<^verbatim>\<open>.end\<close> in a promise.

  The client follows a redirect (status 301, 302, 303, 305, 307 or 308) by a GET of the
  resolved \<^verbatim>\<open>Location\<close>, up to five times for one request; a redirect without
  a \<^verbatim>\<open>Location\<close> is handed over as the error
  \<^verbatim>\<open>No location header for redirect\<close>. The response that ends the chain (a sixth
  redirect is such a response) is handed over as it is when its status is 2xx, and
  otherwise as an error whose message is the reason phrase of the status and whose
  \<^verbatim>\<open>status\<close> is the status. \<open>superagent_follow env n url\<close> is the request
  of \<open>url\<close> with \<open>n\<close> redirects still allowed.
\<close>

datatype request = Get string

definition superagent_get :: "string \<Rightarrow> request" where
  "superagent_get url = Get url"

definition http_error :: "env \<Rightarrow> http_response \<Rightarrow> js_error" where
  "http_error env res =
     \<lparr>name = ''Error'',
      message = (case STATUS_CODES env (status res) of
                   Some s \<Rightarrow> if s = [] then ''Unsuccessful HTTP response'' else s
                 | None \<Rightarrow> ''Unsuccessful HTTP response''),
      errcode = None, errstatus = Some (status res)\<rparr>"

definition isRedirect :: "nat \<Rightarrow> bool" where
  "isRedirect code = (code \<in> set [301, 302, 303, 305, 307, 308])"

definition isResponseOK :: "http_response \<Rightarrow> bool" where
  "isResponseOK res = (200 \<le> status res \<and> status res < 300)"

definition superagent_callback :: "env \<Rightarrow> http_response \<Rightarrow> js_error + http_response" where
  "superagent_callback env res =
     (if isResponseOK res then Inr res else Inl (http_error env res))"

fun superagent_follow :: "env \<Rightarrow> nat \<Rightarrow> string \<Rightarrow> js_error + http_response" where
  "superagent_follow env 0 url =
     (case server env url of
        Inl e \<Rightarrow> Inl e
      | Inr res \<Rightarrow> superagent_callback env res)"
| "superagent_follow env (Suc n) url =
     (case server env url of
        Inl e \<Rightarrow> Inl e
      | Inr res \<Rightarrow>
          if isRedirect (status res) then
            (case location res of
               None \<Rightarrow> Inl (new_Error ''No location header for redirect'')
             | Some loc \<Rightarrow>
                 if loc = [] then Inl (new_Error ''No location header for redirect'')
                 else superagent_follow env n (resolve_location env url loc))
          else superagent_callback env res)"

definition superagent_outcome :: "env \<Rightarrow> string \<Rightarrow> js_error + http_response" where
  "superagent_outcome env url = superagent_follow env 5 url"

fun superagent_end :: "env \<Rightarrow> request \<Rightarrow> (js_error + http_response) operation io" where
  "superagent_end env (Get url) =
     io_bind (emit (Started (HttpGet url))) (\<lambda>_.
     io_return (Operation (HttpGet url) (\<lambda>w. (superagent_outcome env url, w))))"

definition superagent_then :: "env \<Rightarrow> request \<Rightarrow> http_response promise io" where
  "superagent_then env req =
     new_Promise (superagent_end env req)
       (\<lambda>r. case r of Inl err \<Rightarrow> Inl err | Inr res \<Rightarrow> Inr res)"

section \<open>The program: \<^verbatim>\<open>index.js\<close>\<close>

text \<open>
  \<^verbatim>\<open>
  const readFilePro = (file) => {
    return new Promise((resolve, reject) => {
      fs.readFile(file, "utf8", (err, data) => {
        if (err) reject(err);
        else resolve(data);
      });
    });
  };
  \<close>
\<close>

definition readFilePro :: "env \<Rightarrow> string \<Rightarrow> string promise io" where
  "readFilePro env file =
     new_Promise (fs_readFile env file)
       (\<lambda>r. case r of Inl err \<Rightarrow> Inl err | Inr data \<Rightarrow> Inr data)"

text \<open>
  \<^verbatim>\<open>
  const writeFilePro = (file, data) => {
    return new Promise((resolve, reject) => {
      fs.writeFile(file, data, (err) => {
        if (err) reject(err);
        else resolve("success");
      });
    });
  };
  \<close>
\<close>

definition writeFilePro :: "env \<Rightarrow> string \<Rightarrow> jsval \<Rightarrow> string promise io" where
  "writeFilePro env file data =
     new_Promise (fs_writeFile env file data)
       (\<lambda>err. case err of Some e \<Rightarrow> Inl e | None \<Rightarrow> Inr ''success'')"

text \<open>
  The body of the \<^verbatim>\<open>try\<close> block of \<^verbatim>\<open>getDogPic\<close> (lines 47 to 78);
  \<^verbatim>\<open>response.body.message\<close> is evaluated twice, as in the source.
\<close>

definition getDogPic_try :: "env \<Rightarrow> string io" where
  "getDogPic_try env =
     io_bind (await_io (readFilePro env (dirname env @ ''/dog.txt''))) (\<lambda>breed.
     io_bind (console_log [JString ''Dog breed:'', JString breed]) (\<lambda>_.
     io_bind (await_io (superagent_then env
                (superagent_get (''https://dog.ceo/api/breed/'' @ breed @ ''/images/random''))))
       (\<lambda>response.
     io_bind (io_eval (prop_message (body response))) (\<lambda>m1.
     io_bind (console_log [JString ''Dog image URL:'', m1]) (\<lambda>_.
     io_bind (io_eval (prop_message (body response))) (\<lambda>m2.
     io_bind (await_io (writeFilePro env (dirname env @ ''/dog-image.txt'') m2)) (\<lambda>_.
     io_bind (console_log [JString ''Dog image URL saved to dog-image.txt'']) (\<lambda>_.
     io_return ''Step: 2: ready!''))))))))"

text \<open>
  \<^verbatim>\<open>const getDogPic = async () => { try { ... } catch (err) { throw new Error(err.message); } }\<close>
\<close>

definition getDogPic :: "env \<Rightarrow> string io" where
  "getDogPic env =
     io_catch (getDogPic_try env) (\<lambda>err. io_throw (new_Error (message err)))"

text \<open>
  The top-level block (lines 84 to 93), an anonymous \<^verbatim>\<open>async\<close> function called
  at once:
  \<^verbatim>\<open>
  try {
    console.log("Step 1: will get dog pics!");
    const msg = await getDogPic();
    console.log(msg);
    console.log("Step 3: done getting dog pics!");
  } catch (err) {
    console.error({ asyncError: err.message });
  }
  \<close>
\<close>

definition main :: "env \<Rightarrow> unit io" where
  "main env =
     io_catch
       (io_bind (console_log [JString ''Step 1: will get dog pics!'']) (\<lambda>_.
        io_bind (getDogPic env) (\<lambda>msg.
        io_bind (console_log [JString msg]) (\<lambda>_.
        console_log [JString ''Step 3: done getting dog pics!'']))))
       (\<lambda>err. console_error [JObject [(''asyncError'', JString (message err))]])"

section \<open>The program in callback style: \<^verbatim>\<open>part_000\<close>\<close>

text \<open>
  \<^verbatim>\<open>
  fs.readFile(`${__dirname}/dog.txt`, "utf8", (err, data) => {
    if (err) return console.error("Error reading file:", err);
    console.log("Dog breed:", data);
    superagent
      .get(`https://dog.ceo/api/breed/${data}/images/random`)
      .end((err, res) => {
        if (err) return console.error("Error fetching dog image:", err.message);
        console.log("Dog image URL:", res.body.message);
        fs.writeFile(`${__dirname}/dog-image.txt`, res.body.message, (err) => {
          if (err) return console.error("Error writing file:", err);
          console.log("Dog image URL saved to dog-image.txt");
        });
      });
  });
  \<close>
\<close>

definition callback_script :: "env \<Rightarrow> unit io" where
  "callback_script env =
     on_completion (fs_readFile env (dirname env @ ''/dog.txt'')) (\<lambda>r.
       case r of
         Inl err \<Rightarrow> console_error [JString ''Error reading file:'', JError err]
       | Inr data \<Rightarrow>
           io_bind (console_log [JString ''Dog breed:'', JString data]) (\<lambda>_.
           on_completion
             (superagent_end env
                (superagent_get (''https://dog.ceo/api/breed/'' @ data @ ''/images/random'')))
             (\<lambda>r. case r of
                Inl err \<Rightarrow>
                  console_error [JString ''Error fetching dog image:'', JString (message err)]
              | Inr res \<Rightarrow>
                  io_bind (io_eval (prop_message (body res))) (\<lambda>m1.
                  io_bind (console_log [JString ''Dog image URL:'', m1]) (\<lambda>_.
                  io_bind (io_eval (prop_message (body res))) (\<lambda>m2.
                  on_completion (fs_writeFile env (dirname env @ ''/dog-image.txt'') m2)
                    (\<lambda>err. case err of
                       Some e \<Rightarrow> console_error [JString ''Error writing file:'', JError e]
                     | None \<Rightarrow>
                         console_log [JString ''Dog image URL saved to dog-image.txt''])))))))"

section \<open>Observing a run\<close>

text \<open>What a computation adds to the trace and to the console of the world it starts in.\<close>

definition events_of :: "'a io \<Rightarrow> world \<Rightarrow> event list" where
  "events_of m w = drop (length (trace w)) (trace (snd (m w)))"

definition lines_of :: "'a io \<Rightarrow> world \<Rightarrow> console_line list" where
  "lines_of m w = drop (length (console w)) (console (snd (m w)))"

text \<open>The calls made, in order, and those made to each stage with their arguments.\<close>

fun started :: "event list \<Rightarrow> call list" where
  "started [] = []"
| "started (Started c # evs) = c # started evs"
| "started (Settled c # evs) = started evs"


fun fetcher_calls :: "call list \<Rightarrow> string list" where
  "fetcher_calls [] = []"
| "fetcher_calls (ReadFile file # cs) = fetcher_calls cs"
| "fetcher_calls (HttpGet url # cs) = url # fetcher_calls cs"
| "fetcher_calls (WriteFile file data # cs) = fetcher_calls cs"

fun writer_calls :: "call list \<Rightarrow> (string \<times> jsval) list" where
  "writer_calls [] = []"
| "writer_calls (ReadFile file # cs) = writer_calls cs"
| "writer_calls (HttpGet url # cs) = writer_calls cs"
| "writer_calls (WriteFile file data # cs) = (file, data) # writer_calls cs"

datatype stage = Reader | Fetcher | Writer

fun stage_of :: "call \<Rightarrow> stage" where
  "stage_of (ReadFile file) = Reader"
| "stage_of (HttpGet url) = Fetcher"
| "stage_of (WriteFile file data) = Writer"

text \<open>The arguments of the calls to \<^verbatim>\<open>console.error\<close>.\<close>

fun error_lines :: "console_line list \<Rightarrow> jsval list list" where
  "error_lines [] = []"
| "error_lines (Console_error args # ls) = args # error_lines ls"
| "error_lines (Console_log args # ls) = error_lines ls"

text \<open>
  The largest number of operations in flight at any moment of a trace: \<open>peak fl evs\<close>
  follows the events \<open>evs\<close> from a moment at which the operations \<open>fl\<close> are in
  flight.
\<close>

fun peak :: "call list \<Rightarrow> event list \<Rightarrow> nat" where
  "peak fl [] = length fl"
| "peak fl (Started c # evs) = max (length fl) (peak (fl @ [c]) evs)"
| "peak fl (Settled c # evs) = max (length fl) (peak (remove1 c fl) evs)"

definition max_in_flight :: "event list \<Rightarrow> nat" where
  "max_in_flight evs = peak [] evs"

text \<open>
  A trace is sequential when every operation is over before the next call is made: the
  trace is a row of pairs, a call and its own completion.
\<close>

fun sequential :: "event list \<Rightarrow> bool" where
  "sequential [] = True"
| "sequential (Started c # Settled c' # evs) = (c = c' \<and> sequential evs)"
| "sequential (Started c # Started c' # evs) = False"
| "sequential [Started c] = False"
| "sequential (Settled c # evs) = False"

section \<open>The request URL as the specification words it\<close>

text \<open>
  The specification gives the URL as a template with a placeholder,
  \<^verbatim>\<open>https://dog.ceo/api/breed/{breed}/images/random\<close>, and asks for the breed to be
  substituted for the placeholder. \<open>replace_first pat rep text\<close> replaces the first
  occurrence of \<open>pat\<close> in \<open>text\<close>.
\<close>

fun replace_first :: "string \<Rightarrow> string \<Rightarrow> string \<Rightarrow> string" where
  "replace_first pat rep [] = []"
| "replace_first pat rep (c # cs) =
     (if take (length pat) (c # cs) = pat then rep @ drop (length pat) (c # cs)
      else c # replace_first pat rep cs)"

definition url_template :: string where
  "url_template = ''https://dog.ceo/api/breed/{breed}/images/random''"

definition fill_template :: "string \<Rightarrow> string" where
  "fill_template breed = replace_first ''{breed}'' breed url_template"

text \<open>
  The part of a request URL between the fixed beginning
  \<^verbatim>\<open>https://dog.ceo/api/breed/\<close> and the fixed ending \<^verbatim>\<open>/images/random\<close>.
\<close>

definition path_segment :: "string \<Rightarrow> string" where
  "path_segment url =
     take (length url - length ''/images/random'' - length ''https://dog.ceo/api/breed/'')
       (drop (length ''https://dog.ceo/api/breed/'') url)"

section \<open>A body without the field\<close>


section \<open>Concrete environments\<close>

text \<open>
  A script in \<^verbatim>\<open>/app\<close>, a file system without faults whose only file is
  \<^verbatim>\<open>/app/dog.txt\<close> (when it has a content at all), and a server that gives the
  same answer to every request.
\<close>

definition demo_env :: "js_error + http_response \<Rightarrow> env" where
  "demo_env answer =
     \<lparr>dirname = ''/app'', read_fault = (\<lambda>file. None), write_fault = (\<lambda>file s. None),
      server = (\<lambda>url. answer),
      resolve_location = (\<lambda>url loc. loc),
      STATUS_CODES = (\<lambda>n. if n = 404 then Some ''Not Found''
                           else if n = 302 then Some ''Found'' else None),
      describe_value = (\<lambda>v. ''an instance of Object'')\<rparr>"

definition demo_world :: "string option \<Rightarrow> world" where
  "demo_world content =
     \<lparr>files = (\<lambda>file. if file = ''/app/dog.txt'' then content else None),
      trace = [], console = []\<rparr>"

definition ok_response :: http_response where
  "ok_response =
     \<lparr>status = 200, location = None,
      body = JObject [(''message'', JString ''https://images.dog.ceo/x.jpg''),
                      (''status'', JString ''success'')]\<rparr>"

definition no_message_response :: http_response where
  "no_message_response =
     \<lparr>status = 200, location = None, body = JObject [(''status'', JString ''success'')]\<rparr>"

definition not_found_response :: http_response where
  "not_found_response =
     \<lparr>status = 404, location = None,
      body = JObject [(''status'', JString ''error''),
                      (''message'', JString ''Breed not found (master breed does not exist)''),
                      (''code'', JNumber 404)]\<rparr>"

definition null_body_response :: http_response where
  "null_body_response = \<lparr>status = 200, location = None, body = JNull\<rparr>"

definition lost_redirect_response :: http_response where
  "lost_redirect_response = \<lparr>status = 302, location = None, body = JObject []\<rparr>"

definition looping_redirect_response :: http_response where
  "looping_redirect_response =
     \<lparr>status = 302, location = Some ''https://dog.ceo/api/again'', body = JObject []\<rparr>"

text \<open>
  A server that has moved the images of the hound: it answers the request of the program
  with a redirect, and every other request with the image.
\<close>

definition moved_env :: env where
  "moved_env =
     (demo_env (Inr ok_response))
       \<lparr>server := (\<lambda>url.
          if url = ''https://dog.ceo/api/breed/hound/images/random''
          then Inr \<lparr>status = 302, location = Some ''https://dog.ceo/api/v2/hound'',
                    body = JObject []\<rparr>
          else Inr ok_response)\<rparr>"

abbreviation dog_txt :: "env \<Rightarrow> string" where
  "dog_txt env \<equiv> dirname env @ ''/dog.txt''"

abbreviation dog_image_txt :: "env \<Rightarrow> string" where
  "dog_image_txt env \<equiv> dirname env @ ''/dog-image.txt''"

abbreviation breed_url :: "string \<Rightarrow> string" where
  "breed_url breed \<equiv> ''https://dog.ceo/api/breed/'' @ breed @ ''/images/random''"

section \<open>Each stage, awaited\<close>

text \<open>
  What \<^verbatim>\<open>await\<close> on each of the three promises does to the world, and then the
  six ways through the \<^verbatim>\<open>try\<close> block: the read fails, the request fails,
  \<^verbatim>\<open>response.body\<close> has no properties to read, the data is not a string, the
  write fails, or everything succeeds.
\<close>

lemma superagent_follow_direct:
  assumes "server env url = Inr res" and "\<not> isRedirect (status res)"
  shows "superagent_follow env n url = superagent_callback env res"
  using assms by (cases n) simp_all

lemma superagent_follow_lost:
  assumes "server env url = Inr res" and "isRedirect (status res)"
    and "location res = None \<or> location res = Some []"
  shows "superagent_follow env (Suc n) url = Inl (new_Error ''No location header for redirect'')"
  using assms by auto

lemma superagent_follow_redirect:
  assumes "server env url = Inr res" and "isRedirect (status res)"
    and "location res = Some loc" and "loc \<noteq> []"
  shows "superagent_follow env (Suc n) url = superagent_follow env n (resolve_location env url loc)"
  using assms by simp


lemma superagent_outcome_direct:
  assumes "server env url = Inr res" and "\<not> isRedirect (status res)"
  shows "superagent_outcome env url = superagent_callback env res"
  using assms by (simp add: superagent_outcome_def superagent_follow_direct)

lemma superagent_outcome_lost:
  assumes "server env url = Inr res" and "isRedirect (status res)"
    and "location res = None \<or> location res = Some []"
  shows "superagent_outcome env url = Inl (new_Error ''No location header for redirect'')"
  using superagent_follow_lost [OF assms, of 4] by (simp add: superagent_outcome_def eval_nat_numeral)

lemma superagent_outcome_redirect:
  assumes "server env url = Inr res" and "isRedirect (status res)"
    and "location res = Some loc" and "loc \<noteq> []"
  shows "superagent_outcome env url = superagent_follow env 4 (resolve_location env url loc)"
  using superagent_follow_redirect [OF assms, of 4] by (simp add: superagent_outcome_def eval_nat_numeral)



lemma fs_read_outcome_trace [simp]:
  "fs_read_outcome env file (w\<lparr>trace := t\<rparr>) = fs_read_outcome env file w"
  by (simp add: fs_read_outcome_def split: option.splits)

lemma fs_read_outcome_console [simp]:
  "fs_read_outcome env file (w\<lparr>console := c\<rparr>) = fs_read_outcome env file w"
  by (simp add: fs_read_outcome_def split: option.splits)

lemma await_readFilePro:
  "await_io (readFilePro env file) w =
     (fs_read_outcome env file w,
      w\<lparr>trace := trace w @ [Started (ReadFile file), Settled (ReadFile file)]\<rparr>)"
  by (simp add: await_io_def readFilePro_def new_Promise_def fs_readFile_def io_bind_def
      emit_def io_return_def split: sum.splits)

lemma await_superagent_then:
  "await_io (superagent_then env (superagent_get url)) w =
     (superagent_outcome env url,
      w\<lparr>trace := trace w @ [Started (HttpGet url), Settled (HttpGet url)]\<rparr>)"
  by (simp add: await_io_def superagent_then_def superagent_get_def new_Promise_def
      io_bind_def emit_def io_return_def split: sum.splits)

lemma await_writeFilePro_string:
  "await_io (writeFilePro env file (JString s)) w =
     (case write_fault env file s of
        Some f \<Rightarrow>
          (Inl (fault_error f),
           w\<lparr>files := fault_leaves f file (files w),
             trace := trace w @ [Started (WriteFile file (JString s)),
                                 Settled (WriteFile file (JString s))]\<rparr>)
      | None \<Rightarrow>
          (Inr ''success'',
           w\<lparr>files := (files w)(file \<mapsto> s),
             trace := trace w @ [Started (WriteFile file (JString s)),
                                 Settled (WriteFile file (JString s))]\<rparr>))"
  by (simp add: await_io_def writeFilePro_def new_Promise_def fs_writeFile_def
      fs_write_outcome_def io_bind_def emit_def io_return_def split: option.splits)

lemma await_writeFilePro_other:
  assumes "\<And>s. data \<noteq> JString s"
  shows "await_io (writeFilePro env file data) w =
     (Inl (ERR_INVALID_ARG_TYPE env data),
      w\<lparr>trace := trace w @ [Started (WriteFile file data), Settled (WriteFile file data)]\<rparr>)"
  using assms by (cases data)
     (auto simp: await_io_def writeFilePro_def new_Promise_def fs_writeFile_def
      io_bind_def emit_def io_return_def io_throw_def)

lemma getDogPic_try_read_fails:
  assumes "fs_read_outcome env (dog_txt env) w = Inl e"
  shows "getDogPic_try env w =
     (Inl e, w\<lparr>trace := trace w @ [Started (ReadFile (dog_txt env)),
                                    Settled (ReadFile (dog_txt env))]\<rparr>)"
  using assms by (simp add: getDogPic_try_def io_bind_def await_readFilePro)

lemma getDogPic_try_fetch_fails:
  assumes "fs_read_outcome env (dog_txt env) w = Inr breed"
    and "superagent_outcome env (breed_url breed) = Inl e"
  shows "getDogPic_try env w =
     (Inl e,
      w\<lparr>trace := trace w @ [Started (ReadFile (dog_txt env)), Settled (ReadFile (dog_txt env)),
                              Started (HttpGet (breed_url breed)), Settled (HttpGet (breed_url breed))],
        console := console w @ [Console_log [JString ''Dog breed:'', JString breed]]\<rparr>)"
  using assms
  by (simp add: getDogPic_try_def io_bind_def await_readFilePro await_superagent_then
      console_log_def)

lemma getDogPic_try_body_fails:
  assumes "fs_read_outcome env (dog_txt env) w = Inr breed"
    and "superagent_outcome env (breed_url breed) = Inr res"
    and "prop_message (body res) = Inl e"
  shows "getDogPic_try env w =
     (Inl e,
      w\<lparr>trace := trace w @ [Started (ReadFile (dog_txt env)), Settled (ReadFile (dog_txt env)),
                              Started (HttpGet (breed_url breed)), Settled (HttpGet (breed_url breed))],
        console := console w @ [Console_log [JString ''Dog breed:'', JString breed]]\<rparr>)"
  using assms
  by (simp add: getDogPic_try_def io_bind_def await_readFilePro await_superagent_then
      console_log_def io_eval_def)

lemma getDogPic_try_data_refused:
  assumes "fs_read_outcome env (dog_txt env) w = Inr breed"
    and "superagent_outcome env (breed_url breed) = Inr res"
    and "prop_message (body res) = Inr m"
    and "\<And>s. m \<noteq> JString s"
  shows "getDogPic_try env w =
     (Inl (ERR_INVALID_ARG_TYPE env m),
      w\<lparr>trace := trace w @ [Started (ReadFile (dog_txt env)), Settled (ReadFile (dog_txt env)),
                              Started (HttpGet (breed_url breed)), Settled (HttpGet (breed_url breed)),
                              Started (WriteFile (dog_image_txt env) m),
                              Settled (WriteFile (dog_image_txt env) m)],
        console := console w @ [Console_log [JString ''Dog breed:'', JString breed],
                                Console_log [JString ''Dog image URL:'', m]]\<rparr>)"
  using assms(1-3)
  by (simp add: getDogPic_try_def io_bind_def await_readFilePro await_superagent_then
      console_log_def io_eval_def await_writeFilePro_other [OF assms(4)])

lemma getDogPic_try_write_fails:
  assumes "fs_read_outcome env (dog_txt env) w = Inr breed"
    and "superagent_outcome env (breed_url breed) = Inr res"
    and "prop_message (body res) = Inr (JString s)"
    and "write_fault env (dog_image_txt env) s = Some f"
  shows "getDogPic_try env w =
     (Inl (fault_error f),
      w\<lparr>files := fault_leaves f (dog_image_txt env) (files w),
        trace := trace w @ [Started (ReadFile (dog_txt env)), Settled (ReadFile (dog_txt env)),
                              Started (HttpGet (breed_url breed)), Settled (HttpGet (breed_url breed)),
                              Started (WriteFile (dog_image_txt env) (JString s)),
                              Settled (WriteFile (dog_image_txt env) (JString s))],
        console := console w @ [Console_log [JString ''Dog breed:'', JString breed],
                                Console_log [JString ''Dog image URL:'', JString s]]\<rparr>)"
  using assms
  by (simp add: getDogPic_try_def io_bind_def await_readFilePro await_superagent_then
      console_log_def io_eval_def await_writeFilePro_string)

lemma getDogPic_try_success:
  assumes "fs_read_outcome env (dog_txt env) w = Inr breed"
    and "superagent_outcome env (breed_url breed) = Inr res"
    and "prop_message (body res) = Inr (JString s)"
    and "write_fault env (dog_image_txt env) s = None"
  shows "getDogPic_try env w =
     (Inr ''Step: 2: ready!'',
      w\<lparr>files := (files w)(dog_image_txt env \<mapsto> s),
        trace := trace w @ [Started (ReadFile (dog_txt env)), Settled (ReadFile (dog_txt env)),
                              Started (HttpGet (breed_url breed)), Settled (HttpGet (breed_url breed)),
                              Started (WriteFile (dog_image_txt env) (JString s)),
                              Settled (WriteFile (dog_image_txt env) (JString s))],
        console := console w @ [Console_log [JString ''Dog breed:'', JString breed],
                                Console_log [JString ''Dog image URL:'', JString s],
                                Console_log [JString ''Dog image URL saved to dog-image.txt'']]\<rparr>)"
  using assms
  by (simp add: getDogPic_try_def io_bind_def await_readFilePro await_superagent_then
      console_log_def io_eval_def await_writeFilePro_string io_return_def)

lemma getDogPic_try_cases:
  obtains
    (read_fails) e where "fs_read_outcome env (dog_txt env) w = Inl e"
  | (fetch_fails) breed e where "fs_read_outcome env (dog_txt env) w = Inr breed"
      and "superagent_outcome env (breed_url breed) = Inl e"
  | (body_fails) breed res e where "fs_read_outcome env (dog_txt env) w = Inr breed"
      and "superagent_outcome env (breed_url breed) = Inr res"
      and "prop_message (body res) = Inl e"
  | (data_refused) breed res m where "fs_read_outcome env (dog_txt env) w = Inr breed"
      and "superagent_outcome env (breed_url breed) = Inr res"
      and "prop_message (body res) = Inr m" and "\<And>s. m \<noteq> JString s"
  | (write_fails) breed res s f where "fs_read_outcome env (dog_txt env) w = Inr breed"
      and "superagent_outcome env (breed_url breed) = Inr res"
      and "prop_message (body res) = Inr (JString s)"
      and "write_fault env (dog_image_txt env) s = Some f"
  | (success) breed res s where "fs_read_outcome env (dog_txt env) w = Inr breed"
      and "superagent_outcome env (breed_url breed) = Inr res"
      and "prop_message (body res) = Inr (JString s)"
      and "write_fault env (dog_image_txt env) s = None"
proof (cases "fs_read_outcome env (dog_txt env) w")
  case (Inl e)
  then show ?thesis by (rule read_fails)
next
  case read: (Inr breed)
  show ?thesis
  proof (cases "superagent_outcome env (breed_url breed)")
    case (Inl e)
    with read show ?thesis by (rule fetch_fails)
  next
    case fetch: (Inr res)
    show ?thesis
    proof (cases "prop_message (body res)")
      case (Inl e)
      with read fetch show ?thesis by (rule body_fails)
    next
      case msg: (Inr m)
      show ?thesis
      proof (cases "\<exists>s. m = JString s")
        case False
        then have "\<And>s. m \<noteq> JString s" by blast
        with read fetch msg show ?thesis by (rule data_refused)
      next
        case True
        then obtain s where m: "m = JString s" by blast
        show ?thesis
        proof (cases "write_fault env (dog_image_txt env) s")
          case None
          with read fetch msg m show ?thesis by (auto intro: success)
        next
          case (Some f)
          with read fetch msg m show ?thesis by (auto intro: write_fails)
        qed
      qed
    qed
  qed
qed

section \<open>The pipeline function and the top-level block in terms of the try block\<close>

lemma getDogPic_unfold:
  "getDogPic env w =
     (case getDogPic_try env w of
        (Inl e, w') \<Rightarrow> (Inl (new_Error (message e)), w')
      | (Inr msg, w') \<Rightarrow> (Inr msg, w'))"
  by (simp add: getDogPic_def io_catch_def io_throw_def)

lemma main_unfold:
  "main env w =
     (case getDogPic_try env (w\<lparr>console := console w @ [Console_log [JString ''Step 1: will get dog pics!'']]\<rparr>) of
        (Inl e, w') \<Rightarrow>
          (Inr (), w'\<lparr>console := console w' @
                        [Console_error [JObject [(''asyncError'', JString (message e))]]]\<rparr>)
      | (Inr msg, w') \<Rightarrow>
          (Inr (), w'\<lparr>console := console w' @
                        [Console_log [JString msg],
                         Console_log [JString ''Step 3: done getting dog pics!'']]\<rparr>))"
  by (simp add: main_def io_catch_def io_bind_def console_log_def console_error_def
      getDogPic_unfold new_Error_def split: prod.splits sum.splits)

lemma getDogPic_try_console:
  "getDogPic_try env (w\<lparr>console := c\<rparr>) =
     (fst (getDogPic_try env w),
      (snd (getDogPic_try env w))\<lparr>console := c @ lines_of (getDogPic_try env) w\<rparr>)"
proof (cases rule: getDogPic_try_cases [of env w])
  case (read_fails e)
  then show ?thesis
    by (simp add: getDogPic_try_read_fails lines_of_def)
next
  case (fetch_fails breed e)
  then show ?thesis
    by (simp add: getDogPic_try_fetch_fails lines_of_def)
next
  case (body_fails breed res e)
  then show ?thesis
    by (simp add: getDogPic_try_body_fails lines_of_def)
next
  case (data_refused breed res m)
  then show ?thesis
    by (simp add: getDogPic_try_data_refused lines_of_def)
next
  case (write_fails breed res s f)
  then show ?thesis
    by (simp add: getDogPic_try_write_fails lines_of_def)
next
  case (success breed res s)
  then show ?thesis
    by (simp add: getDogPic_try_success lines_of_def)
qed

lemma main_events: "events_of (main env) w = events_of (getDogPic_try env) w"
  by (simp add: events_of_def main_unfold getDogPic_try_console split: prod.splits sum.splits)

lemma getDogPic_events: "events_of (getDogPic env) w = events_of (getDogPic_try env) w"
  by (simp add: events_of_def getDogPic_unfold split: prod.splits sum.splits)

lemma main_files: "files (snd (main env w)) = files (snd (getDogPic_try env w))"
  by (simp add: main_unfold getDogPic_try_console split: prod.splits sum.splits)

lemma getDogPic_files: "files (snd (getDogPic env w)) = files (snd (getDogPic_try env w))"
  by (simp add: getDogPic_unfold split: prod.splits sum.splits)

lemma getDogPic_lines: "lines_of (getDogPic env) w = lines_of (getDogPic_try env) w"
  by (simp add: lines_of_def getDogPic_unfold split: prod.splits sum.splits)

lemma fill_template_eq: "fill_template breed = breed_url breed"
  by (simp add: fill_template_def url_template_def)

lemma path_segment_eq: "path_segment (breed_url breed) = breed"
  by (simp add: path_segment_def)

section \<open>What a run of the try block does, in one equation each\<close>

text \<open>
  The events, the files, the result and the console lines of a run of the
  \<^verbatim>\<open>try\<close> block, as functions of what the environment answers.
\<close>

lemma getDogPic_try_events:
  "events_of (getDogPic_try env) w =
     [Started (ReadFile (dog_txt env)), Settled (ReadFile (dog_txt env))] @
     (case fs_read_outcome env (dog_txt env) w of
        Inl e \<Rightarrow> []
      | Inr breed \<Rightarrow>
          [Started (HttpGet (breed_url breed)), Settled (HttpGet (breed_url breed))] @
          (case superagent_outcome env (breed_url breed) of
             Inl e \<Rightarrow> []
           | Inr res \<Rightarrow>
               (case prop_message (body res) of
                  Inl e \<Rightarrow> []
                | Inr m \<Rightarrow> [Started (WriteFile (dog_image_txt env) m),
                             Settled (WriteFile (dog_image_txt env) m)])))"
  by (cases rule: getDogPic_try_cases [of env w])
     (simp_all add: events_of_def getDogPic_try_read_fails getDogPic_try_fetch_fails
      getDogPic_try_body_fails getDogPic_try_data_refused getDogPic_try_write_fails
      getDogPic_try_success)

lemma getDogPic_try_files:
  "files (snd (getDogPic_try env w)) =
     (case fs_read_outcome env (dog_txt env) w of
        Inl e \<Rightarrow> files w
      | Inr breed \<Rightarrow>
          (case superagent_outcome env (breed_url breed) of
             Inl e \<Rightarrow> files w
           | Inr res \<Rightarrow>
               (case prop_message (body res) of
                  Inr (JString s) \<Rightarrow>
                    (case write_fault env (dog_image_txt env) s of
                       None \<Rightarrow> (files w)(dog_image_txt env \<mapsto> s)
                     | Some f \<Rightarrow> fault_leaves f (dog_image_txt env) (files w))
                | _ \<Rightarrow> files w)))"
proof (cases rule: getDogPic_try_cases [of env w])
  case (data_refused breed res m)
  then show ?thesis
    by (cases m) (auto simp: getDogPic_try_data_refused)
qed (simp_all add: getDogPic_try_read_fails getDogPic_try_fetch_fails
      getDogPic_try_body_fails getDogPic_try_write_fails getDogPic_try_success)

lemma getDogPic_try_result:
  "fst (getDogPic_try env w) =
     (case fs_read_outcome env (dog_txt env) w of
        Inl e \<Rightarrow> Inl e
      | Inr breed \<Rightarrow>
          (case superagent_outcome env (breed_url breed) of
             Inl e \<Rightarrow> Inl e
           | Inr res \<Rightarrow>
               (case prop_message (body res) of
                  Inl e \<Rightarrow> Inl e
                | Inr m \<Rightarrow>
                    (case m of
                       JString s \<Rightarrow>
                         (case write_fault env (dog_image_txt env) s of
                            None \<Rightarrow> Inr ''Step: 2: ready!''
                          | Some f \<Rightarrow> Inl (fault_error f))
                     | _ \<Rightarrow> Inl (ERR_INVALID_ARG_TYPE env m)))))"
proof (cases rule: getDogPic_try_cases [of env w])
  case (data_refused breed res m)
  then show ?thesis
    by (cases m) (auto simp: getDogPic_try_data_refused)
qed (simp_all add: getDogPic_try_read_fails getDogPic_try_fetch_fails
      getDogPic_try_body_fails getDogPic_try_write_fails getDogPic_try_success)

lemma getDogPic_try_lines:
  "lines_of (getDogPic_try env) w =
     (case fs_read_outcome env (dog_txt env) w of
        Inl e \<Rightarrow> []
      | Inr breed \<Rightarrow>
          Console_log [JString ''Dog breed:'', JString breed] #
          (case superagent_outcome env (breed_url breed) of
             Inl e \<Rightarrow> []
           | Inr res \<Rightarrow>
               (case prop_message (body res) of
                  Inl e \<Rightarrow> []
                | Inr m \<Rightarrow>
                    Console_log [JString ''Dog image URL:'', m] #
                    (if fst (getDogPic_try env w) = Inr ''Step: 2: ready!''
                     then [Console_log [JString ''Dog image URL saved to dog-image.txt'']]
                     else []))))"
  by (cases rule: getDogPic_try_cases [of env w])
     (simp_all add: lines_of_def getDogPic_try_read_fails getDogPic_try_fetch_fails
      getDogPic_try_body_fails getDogPic_try_data_refused getDogPic_try_write_fails
      getDogPic_try_success)

lemma getDogPic_result:
  "fst (getDogPic env w) =
     (case fst (getDogPic_try env w) of
        Inl e \<Rightarrow> Inl (new_Error (message e))
      | Inr msg \<Rightarrow> Inr msg)"
  by (simp add: getDogPic_unfold split: prod.splits sum.splits)


lemma main_lines:
  "lines_of (main env) w =
     Console_log [JString ''Step 1: will get dog pics!''] #
     lines_of (getDogPic_try env) w @
     (case fst (getDogPic_try env w) of
        Inl e \<Rightarrow> [Console_error [JObject [(''asyncError'', JString (message e))]]]
      | Inr msg \<Rightarrow> [Console_log [JString msg],
                      Console_log [JString ''Step 3: done getting dog pics!'']])"
  by (simp add: lines_of_def main_unfold getDogPic_try_console split: prod.splits sum.splits)

lemma dog_txt_neq: "d @ ''/dog.txt'' \<noteq> d @ ''/dog-image.txt''"
  by simp

lemma fs_read_outcome_files:
  "files w' file = files w file \<Longrightarrow> fs_read_outcome env file w' = fs_read_outcome env file w"
  by (simp add: fs_read_outcome_def split: option.splits)

section \<open>What a run of the callback script does\<close>

lemma console_log_apply:
  "console_log args w = (Inr (), w\<lparr>console := console w @ [Console_log args]\<rparr>)"
  by (simp add: console_log_def)

lemma console_error_apply:
  "console_error args w = (Inr (), w\<lparr>console := console w @ [Console_error args]\<rparr>)"
  by (simp add: console_error_def)

lemma on_completion_readFile:
  "on_completion (fs_readFile env file) cb w =
     cb (fs_read_outcome env file w)
        (w\<lparr>trace := trace w @ [Started (ReadFile file), Settled (ReadFile file)]\<rparr>)"
  by (simp add: on_completion_def fs_readFile_def io_bind_def emit_def io_return_def)

lemma on_completion_superagent:
  "on_completion (superagent_end env (superagent_get url)) cb w =
     cb (superagent_outcome env url)
        (w\<lparr>trace := trace w @ [Started (HttpGet url), Settled (HttpGet url)]\<rparr>)"
  by (simp add: on_completion_def superagent_get_def io_bind_def emit_def io_return_def)

lemma on_completion_writeFile:
  "trace (snd (on_completion (fs_writeFile env file data)
      (\<lambda>err. case err of Some e \<Rightarrow> console_error (a e) | None \<Rightarrow> console_log b) w)) =
     trace w @ [Started (WriteFile file data), Settled (WriteFile file data)]"
  by (cases data)
     (simp_all add: on_completion_def fs_writeFile_def fs_write_outcome_def io_bind_def
      emit_def io_return_def io_throw_def console_error_def console_log_def
      split: option.splits)

lemma callback_script_read_fails:
  assumes "fs_read_outcome env (dog_txt env) w = Inl e"
  shows "callback_script env w =
     (Inr (),
      w\<lparr>trace := trace w @ [Started (ReadFile (dog_txt env)), Settled (ReadFile (dog_txt env))],
        console := console w @ [Console_error [JString ''Error reading file:'', JError e]]\<rparr>)"
  using assms by (simp add: callback_script_def on_completion_readFile console_error_def)

lemma callback_script_events:
  "events_of (callback_script env) w =
     [Started (ReadFile (dog_txt env)), Settled (ReadFile (dog_txt env))] @
     (case fs_read_outcome env (dog_txt env) w of
        Inl e \<Rightarrow> []
      | Inr breed \<Rightarrow>
          [Started (HttpGet (breed_url breed)), Settled (HttpGet (breed_url breed))] @
          (case superagent_outcome env (breed_url breed) of
             Inl e \<Rightarrow> []
           | Inr res \<Rightarrow>
               (case prop_message (body res) of
                  Inl e \<Rightarrow> []
                | Inr m \<Rightarrow> [Started (WriteFile (dog_image_txt env) m),
                             Settled (WriteFile (dog_image_txt env) m)])))"
  by (simp add: events_of_def callback_script_def on_completion_readFile
      on_completion_superagent on_completion_writeFile io_bind_def console_log_apply
      console_error_apply io_eval_def split: sum.splits)

section \<open>Consequences for the console, the calls and the files\<close>

lemma error_lines_append: "error_lines (xs @ ys) = error_lines xs @ error_lines ys"
  by (induction xs rule: error_lines.induct) simp_all

lemma getDogPic_try_error_lines: "error_lines (lines_of (getDogPic_try env) w) = []"
  by (simp add: getDogPic_try_lines split: sum.splits)


lemma main_error_lines:
  assumes "fst (getDogPic_try env w) = Inl e"
  shows "error_lines (lines_of (main env) w) =
     [[JObject [(''asyncError'', JString (message e))]]]"
  using assms by (simp add: main_lines error_lines_append getDogPic_try_error_lines)



lemma getDogPic_try_resolved:
  assumes "fst (getDogPic_try env w) = Inr r"
  obtains breed res s where "fs_read_outcome env (dog_txt env) w = Inr breed"
    and "superagent_outcome env (breed_url breed) = Inr res"
    and "prop_message (body res) = Inr (JString s)"
    and "write_fault env (dog_image_txt env) s = None"
    and "r = ''Step: 2: ready!''"
proof (cases rule: getDogPic_try_cases [of env w])
  case (read_fails e)
  with assms show ?thesis by (simp add: getDogPic_try_read_fails)
next
  case (fetch_fails breed e)
  with assms show ?thesis by (simp add: getDogPic_try_fetch_fails)
next
  case (body_fails breed res e)
  with assms show ?thesis by (simp add: getDogPic_try_body_fails)
next
  case (data_refused breed res m)
  with assms show ?thesis by (simp add: getDogPic_try_data_refused)
next
  case (write_fails breed res s f)
  with assms show ?thesis by (simp add: getDogPic_try_write_fails)
next
  case (success breed res s)
  moreover from success assms have "r = ''Step: 2: ready!''"
    by (simp add: getDogPic_try_success)
  ultimately show ?thesis by (rule that)
qed

lemma fault_leaves_other: "file' \<noteq> file \<Longrightarrow> fault_leaves f file fs file' = fs file'"
  by (cases f) simp_all

lemma fault_leaves_again: "fault_leaves f file (fault_leaves f file fs) = fault_leaves f file fs"
  by (cases f) simp_all

lemma main_read_again:
  "fs_read_outcome env (dog_txt env) (snd (main env w)) = fs_read_outcome env (dog_txt env) w"
  by (rule fs_read_outcome_files)
     (simp add: main_files getDogPic_try_files fault_leaves_other
      split: sum.splits jsval.splits option.splits)

lemma main_files_second_run:
  "files (snd (main env (snd (main env w)))) = files (snd (main env w))"
proof -
  have "files (snd (main env (snd (main env w)))) =
      files (snd (getDogPic_try env (snd (main env w))))"
    by (rule main_files)
  also have "\<dots> = files (snd (main env w))"
    by (subst getDogPic_try_files) (subst main_read_again,
      simp add: main_files getDogPic_try_files fault_leaves_again
      split: sum.splits jsval.splits option.splits)
  finally show ?thesis .
qed

lemma main_overwrites:
  assumes "fst (getDogPic env w) = Inr r"
  shows "files (snd (main env (w\<lparr>files := (files w)(dog_image_txt env := old)\<rparr>)))
      (dog_image_txt env) = files (snd (main env w)) (dog_image_txt env)"
proof -
  let ?w = "w\<lparr>files := (files w)(dog_image_txt env := old)\<rparr>"
  have read: "fs_read_outcome env (dog_txt env) ?w = fs_read_outcome env (dog_txt env) w"
    by (rule fs_read_outcome_files) simp
  from assms have "fst (getDogPic_try env w) = Inr r"
    by (simp add: getDogPic_result split: sum.splits)
  then obtain breed res s where "fs_read_outcome env (dog_txt env) w = Inr breed"
    and "superagent_outcome env (breed_url breed) = Inr res"
    and "prop_message (body res) = Inr (JString s)"
    and "write_fault env (dog_image_txt env) s = None"
    by (rule getDogPic_try_resolved)
  then show ?thesis
    by (simp add: main_files getDogPic_try_files read)
qed

lemma await_writeFilePro_resolves:
  "(fst (await_io (writeFilePro env file data) w) = Inr v) =
     (v = ''success'' \<and> (\<exists>s. data = JString s \<and> write_fault env file s = None))"
proof (cases "\<exists>s. data = JString s")
  case True
  then obtain s where "data = JString s" by blast
  then show ?thesis
    by (auto simp: await_writeFilePro_string split: option.splits)
next
  case False
  then have "\<And>s. data \<noteq> JString s" by blast
  then show ?thesis
    by (simp add: await_writeFilePro_other)
qed

text \<open>
  The measure sees an overlap where there is one. This computation is not in the program:
  it makes two reads before it awaits either, and two operations are in flight.
\<close>

lemma two_reads_overlap:
  "max_in_flight (events_of
     (io_bind (readFilePro env f) (\<lambda>p. io_bind (readFilePro env g) (\<lambda>q.
      io_bind (await p) (\<lambda>x. await q)))) w) = 2"
  by (simp add: max_in_flight_def events_of_def io_bind_def readFilePro_def new_Promise_def
      fs_readFile_def emit_def io_return_def split: sum.splits prod.splits)

section \<open>Facts about the concrete environments\<close>

lemma demo_read [simp]:
  "fs_read_outcome (demo_env answer) ''/app/dog.txt'' (demo_world content) =
     (case content of None \<Rightarrow> Inl (ENOENT ''/app/dog.txt'') | Some s \<Rightarrow> Inr s)"
  by (simp add: fs_read_outcome_def demo_env_def demo_world_def)

lemma demo_dirname [simp]: "dirname (demo_env answer) = ''/app''"
  by (simp add: demo_env_def)

lemma demo_server [simp]: "server (demo_env answer) url = answer"
  by (simp add: demo_env_def)

lemma demo_write_fault [simp]: "write_fault (demo_env answer) file s = None"
  by (simp add: demo_env_def)

lemma demo_world_simps [simp]:
  "trace (demo_world content) = []" "console (demo_world content) = []"
  "files (demo_world content) ''/app/dog-image.txt'' = None"
  by (simp_all add: demo_world_def)

lemma demo_ok_outcome [simp]:
  "superagent_outcome (demo_env (Inr ok_response)) url = Inr ok_response"
  by (simp add: superagent_outcome_direct [of _ _ ok_response] superagent_callback_def
      isRedirect_def isResponseOK_def ok_response_def)

lemma ok_response_message [simp]:
  "prop_message (body ok_response) = Inr (JString ''https://images.dog.ceo/x.jpg'')"
  by (simp add: ok_response_def)

lemma demo_status_codes [simp]:
  "STATUS_CODES (demo_env answer) n =
     (if n = 404 then Some ''Not Found'' else if n = 302 then Some ''Found'' else None)"
  by (simp add: demo_env_def)

lemma demo_describe_value [simp]: "describe_value (demo_env answer) v = ''an instance of Object''"
  by (simp add: demo_env_def)

lemma demo_no_message_outcome [simp]:
  "superagent_outcome (demo_env (Inr no_message_response)) url = Inr no_message_response"
  by (simp add: superagent_outcome_direct [of _ _ no_message_response] superagent_callback_def
      isRedirect_def isResponseOK_def no_message_response_def)

lemma demo_null_body_outcome [simp]:
  "superagent_outcome (demo_env (Inr null_body_response)) url = Inr null_body_response"
  by (simp add: superagent_outcome_direct [of _ _ null_body_response] superagent_callback_def
      isRedirect_def isResponseOK_def null_body_response_def)

lemma no_message_response_message [simp]:
  "prop_message (body no_message_response) = Inr JUndefined"
  by (simp add: no_message_response_def)

lemma demo_not_found_outcome [simp]:
  "superagent_outcome (demo_env (Inr not_found_response)) url =
     Inl \<lparr>name = ''Error'', message = ''Not Found'', errcode = None, errstatus = Some 404\<rparr>"
  by (simp add: superagent_outcome_direct [of _ _ not_found_response] superagent_callback_def
      isRedirect_def isResponseOK_def not_found_response_def http_error_def)

lemma demo_lost_redirect_outcome [simp]:
  "superagent_outcome (demo_env (Inr lost_redirect_response)) url =
     Inl (new_Error ''No location header for redirect'')"
  by (simp add: superagent_outcome_lost [of _ _ lost_redirect_response] isRedirect_def
      lost_redirect_response_def)

lemma demo_looping_redirect_outcome [simp]:
  "superagent_outcome (demo_env (Inr looping_redirect_response)) url =
     Inl \<lparr>name = ''Error'', message = ''Found'', errcode = None, errstatus = Some 302\<rparr>"
  by (simp add: superagent_outcome_def eval_nat_numeral demo_env_def isRedirect_def
      superagent_callback_def isResponseOK_def http_error_def looping_redirect_response_def)

lemma response_fields [simp]:
  "status not_found_response = 404" "location not_found_response = None"
  "status lost_redirect_response = 302" "location lost_redirect_response = None"
  "status null_body_response = 200" "body null_body_response = JNull"
  "status no_message_response = 200"
  "body no_message_response = JObject [(''status'', JString ''success'')]"
  by (simp_all add: not_found_response_def lost_redirect_response_def null_body_response_def
      no_message_response_def)

lemma demo_enoent_result [simp]:
  "fst (getDogPic_try (demo_env answer) (demo_world None)) = Inl (ENOENT ''/app/dog.txt'')"
  by (simp add: getDogPic_try_result)

lemma demo_not_found_result [simp]:
  "fst (getDogPic_try (demo_env (Inr not_found_response)) (demo_world (Some ''hound''))) =
     Inl \<lparr>name = ''Error'', message = ''Not Found'', errcode = None, errstatus = Some 404\<rparr>"
  by (simp add: getDogPic_try_result)

text \<open>
  A redirect that the client follows is no failure: the run goes on with the response
  at the end of the chain, here the image, and the file is written.
\<close>

lemma moved_env_outcome:
  "superagent_outcome moved_env ''https://dog.ceo/api/breed/hound/images/random'' =
     Inr ok_response"
  by (simp add: superagent_outcome_def eval_nat_numeral moved_env_def demo_env_def
      isRedirect_def superagent_callback_def isResponseOK_def ok_response_def)

lemma moved_env_run:
  "fst (getDogPic moved_env (demo_world (Some ''hound''))) = Inr ''Step: 2: ready!'' \<and>
   files (snd (getDogPic moved_env (demo_world (Some ''hound'')))) ''/app/dog-image.txt'' =
     Some ''https://images.dog.ceo/x.jpg''"
proof -
  have d: "dirname moved_env = ''/app''" "read_fault moved_env = (\<lambda>file. None)"
    "write_fault moved_env = (\<lambda>file s. None)"
    by (simp_all add: moved_env_def demo_env_def)
  have r: "fs_read_outcome moved_env ''/app/dog.txt'' (demo_world (Some ''hound'')) = Inr ''hound''"
    by (simp add: fs_read_outcome_def d demo_world_def)
  show ?thesis
    using r moved_env_outcome
    by (simp add: getDogPic_result getDogPic_try_result getDogPic_files getDogPic_try_files d)
qed

section \<open>The claims\<close>






text \<open>
  C3. When the Reader fails (the input file is absent, or any other fault of the read),
  no HTTP request is made, the Writer is never called and no file changes. This holds for
  the pipeline function, for the top-level block that calls it, and for the script in
  callback style.
\<close>

theorem reader_failure_stops_everything:
  assumes "fs_read_outcome env (dog_txt env) w = Inl e"
  shows "fetcher_calls (started (events_of (getDogPic env) w)) = [] \<and>
         writer_calls (started (events_of (getDogPic env) w)) = [] \<and>
         files (snd (getDogPic env w)) = files w \<and>
         fetcher_calls (started (events_of (main env) w)) = [] \<and>
         writer_calls (started (events_of (main env) w)) = [] \<and>
         files (snd (main env w)) = files w \<and>
         fetcher_calls (started (events_of (callback_script env) w)) = [] \<and>
         writer_calls (started (events_of (callback_script env) w)) = [] \<and>
         files (snd (callback_script env w)) = files w"
  using assms
  by (simp add: getDogPic_events main_events getDogPic_try_events callback_script_events
      getDogPic_files main_files getDogPic_try_files callback_script_read_fails)

theorem reader_failure_stops_everything_witness:
  "fs_read_outcome (demo_env (Inr ok_response)) ''/app/dog.txt'' (demo_world None) =
     Inl (ENOENT ''/app/dog.txt'') \<and>
   started (events_of (main (demo_env (Inr ok_response))) (demo_world None)) =
     [ReadFile ''/app/dog.txt''] \<and>
   fetcher_calls (started (events_of (main (demo_env (Inr ok_response))) (demo_world None))) = [] \<and>
   writer_calls (started (events_of (main (demo_env (Inr ok_response))) (demo_world None))) = [] \<and>
   files (snd (main (demo_env (Inr ok_response)) (demo_world None))) ''/app/dog-image.txt'' = None \<and>
   fetcher_calls (started (events_of (callback_script (demo_env (Inr ok_response)))
     (demo_world None))) = [] \<and>
   writer_calls (started (events_of (callback_script (demo_env (Inr ok_response)))
     (demo_world None))) = [] \<and>
   files (snd (callback_script (demo_env (Inr ok_response)) (demo_world None)))
     ''/app/dog-image.txt'' = None"
  using reader_failure_stops_everything [of "demo_env (Inr ok_response)" "demo_world None"
      "ENOENT ''/app/dog.txt''"]
  by (simp add: main_events getDogPic_try_events)

text \<open>
  C4. Whatever string the Reader read, exactly one HTTP GET is made, and its URL is the
  template \<^verbatim>\<open>https://dog.ceo/api/breed/{breed}/images/random\<close> with that string
  in the place of \<^verbatim>\<open>{breed}\<close>.
\<close>

theorem fetcher_requests_template_url:
  assumes "fs_read_outcome env (dog_txt env) w = Inr breed"
  shows "fetcher_calls (started (events_of (getDogPic env) w)) = [fill_template breed] \<and>
         fetcher_calls (started (events_of (main env) w)) = [fill_template breed]"
  using assms
  by (simp add: getDogPic_events main_events getDogPic_try_events fill_template_eq
      split: sum.splits)

theorem fetcher_requests_template_url_witness:
  "fs_read_outcome (demo_env (Inr ok_response)) ''/app/dog.txt'' (demo_world (Some ''hound'')) =
     Inr ''hound'' \<and>
   fetcher_calls (started (events_of (main (demo_env (Inr ok_response)))
     (demo_world (Some ''hound'')))) = [''https://dog.ceo/api/breed/hound/images/random'']"
  using fetcher_requests_template_url [of "demo_env (Inr ok_response)"
      "demo_world (Some ''hound'')" "''hound''"]
  by (simp add: fill_template_def url_template_def)



text \<open>
  C6. In every run, of the top-level block and of the pipeline function, every operation
  is over before the next call is made, at most one operation is in flight at any moment,
  and the calls made are a beginning of the row Reader, Fetcher, Writer.
\<close>

theorem stages_run_one_after_another:
  "sequential (events_of (main env) w) \<and>
   max_in_flight (events_of (main env) w) \<le> 1 \<and>
   map stage_of (started (events_of (main env) w)) =
     take (length (started (events_of (main env) w))) [Reader, Fetcher, Writer] \<and>
   sequential (events_of (getDogPic env) w) \<and>
   max_in_flight (events_of (getDogPic env) w) \<le> 1 \<and>
   map stage_of (started (events_of (getDogPic env) w)) =
     take (length (started (events_of (getDogPic env) w))) [Reader, Fetcher, Writer]"
  by (simp add: main_events getDogPic_events getDogPic_try_events max_in_flight_def
      split: sum.splits)

theorem stages_run_one_after_another_witness:
  "events_of (main (demo_env (Inr ok_response))) (demo_world (Some ''hound'')) =
     [Started (ReadFile ''/app/dog.txt''), Settled (ReadFile ''/app/dog.txt''),
      Started (HttpGet ''https://dog.ceo/api/breed/hound/images/random''),
      Settled (HttpGet ''https://dog.ceo/api/breed/hound/images/random''),
      Started (WriteFile ''/app/dog-image.txt'' (JString ''https://images.dog.ceo/x.jpg'')),
      Settled (WriteFile ''/app/dog-image.txt'' (JString ''https://images.dog.ceo/x.jpg''))] \<and>
   sequential (events_of (main (demo_env (Inr ok_response))) (demo_world (Some ''hound''))) \<and>
   max_in_flight (events_of (main (demo_env (Inr ok_response))) (demo_world (Some ''hound''))) \<le> 1"
  using stages_run_one_after_another [of "demo_env (Inr ok_response)" "demo_world (Some ''hound'')"]
  by (simp add: main_events getDogPic_try_events)

text \<open>
  C7. A second run in the same environment (same input file, same answer of the server)
  leaves every file exactly as the first run left it. And when a run succeeds, the content
  of the output file afterwards does not depend on what the file held before the run, or
  on whether it existed: the Writer replaces the content, it does not append.
\<close>

theorem repeated_runs_leave_same_output:
  "files (snd (main env (snd (main env w)))) = files (snd (main env w)) \<and>
   (fst (getDogPic env w) = Inr r \<longrightarrow>
      files (snd (main env (w\<lparr>files := (files w)(dog_image_txt env := old)\<rparr>)))
        (dog_image_txt env) = files (snd (main env w)) (dog_image_txt env))"
  using main_files_second_run [of env w] main_overwrites [of env w r old] by blast

theorem repeated_runs_leave_same_output_witness:
  "files (snd (main (demo_env (Inr ok_response)) (demo_world (Some ''hound''))))
     ''/app/dog-image.txt'' = Some ''https://images.dog.ceo/x.jpg'' \<and>
   files (snd (main (demo_env (Inr ok_response))
     (snd (main (demo_env (Inr ok_response)) (demo_world (Some ''hound''))))))
     ''/app/dog-image.txt'' = Some ''https://images.dog.ceo/x.jpg'' \<and>
   files (snd (main (demo_env (Inr ok_response))
     ((demo_world (Some ''hound''))
        \<lparr>files := (files (demo_world (Some ''hound'')))
           (''/app/dog-image.txt'' := Some ''an older URL'')\<rparr>)))
     ''/app/dog-image.txt'' = Some ''https://images.dog.ceo/x.jpg''"
  using repeated_runs_leave_same_output [of "demo_env (Inr ok_response)"
      "demo_world (Some ''hound'')" "''Step: 2: ready!''" "Some ''an older URL''"]
  by (simp add: getDogPic_result getDogPic_try_result main_files getDogPic_try_files)

text \<open>
  C8. The content of the input file goes into the URL as it is. For every content at all
  (nothing is validated) the request is made, its URL is the fixed beginning, the content,
  and the fixed ending, and what stands between the two fixed parts is the content itself,
  character for character (nothing is trimmed or escaped). Both the pipeline function and
  the script in callback style do so.
\<close>

theorem breed_used_verbatim:
  assumes "fs_read_outcome env (dog_txt env) w = Inr breed"
  shows "fetcher_calls (started (events_of (getDogPic env) w)) =
           [''https://dog.ceo/api/breed/'' @ breed @ ''/images/random''] \<and>
         fetcher_calls (started (events_of (callback_script env) w)) =
           [''https://dog.ceo/api/breed/'' @ breed @ ''/images/random''] \<and>
         map path_segment (fetcher_calls (started (events_of (getDogPic env) w))) = [breed] \<and>
         map path_segment (fetcher_calls (started (events_of (callback_script env) w))) = [breed]"
proof -
  have a: "fetcher_calls (started (events_of (getDogPic env) w)) = [breed_url breed]"
    using assms by (simp add: getDogPic_events getDogPic_try_events split: sum.splits)
  have b: "fetcher_calls (started (events_of (callback_script env) w)) = [breed_url breed]"
    using assms by (simp add: callback_script_events split: sum.splits)
  have c: "map path_segment [breed_url breed] = [breed]"
    by (simp only: list.map path_segment_eq)
  show ?thesis
    unfolding a b c by simp
qed

theorem breed_used_verbatim_witness:
  "fs_read_outcome (demo_env (Inr ok_response)) ''/app/dog.txt''
     (demo_world (Some (''  St. Bernard/../x?y=1&z#%'' @ [CHR 0x0A]))) =
     Inr (''  St. Bernard/../x?y=1&z#%'' @ [CHR 0x0A]) \<and>
   fetcher_calls (started (events_of (getDogPic (demo_env (Inr ok_response)))
     (demo_world (Some (''  St. Bernard/../x?y=1&z#%'' @ [CHR 0x0A]))))) =
     [''https://dog.ceo/api/breed/  St. Bernard/../x?y=1&z#%'' @ [CHR 0x0A] @ ''/images/random''] \<and>
   fetcher_calls (started (events_of (callback_script (demo_env (Inr ok_response)))
     (demo_world (Some (''  St. Bernard/../x?y=1&z#%'' @ [CHR 0x0A]))))) =
     [''https://dog.ceo/api/breed/  St. Bernard/../x?y=1&z#%'' @ [CHR 0x0A] @ ''/images/random'']"
  using breed_used_verbatim [of "demo_env (Inr ok_response)"
      "demo_world (Some (''  St. Bernard/../x?y=1&z#%'' @ [CHR 0x0A]))"
      "''  St. Bernard/../x?y=1&z#%'' @ [CHR 0x0A]"]
  by simp

text \<open>
  C9. Whatever error \<open>e\<close> is thrown inside the \<^verbatim>\<open>try\<close> block of the
  pipeline function, the caller gets a new \<^verbatim>\<open>Error\<close> whose message is the
  message of \<open>e\<close> and which has nothing else of \<open>e\<close> (not its name, its code or
  its status); the world is as the \<^verbatim>\<open>try\<close> block left it; and the only error
  line of the console is the object \<^verbatim>\<open>{ asyncError: message }\<close> with that
  message.
\<close>

theorem caller_gets_fresh_Error:
  assumes "fst (getDogPic_try env w) = Inl e"
  shows "fst (getDogPic env w) =
           Inl \<lparr>name = ''Error'', message = message e, errcode = None, errstatus = None\<rparr> \<and>
         snd (getDogPic env w) = snd (getDogPic_try env w) \<and>
         error_lines (lines_of (main env) w) =
           [[JObject [(''asyncError'', JString (message e))]]]"
proof (intro conjI)
  show "fst (getDogPic env w) =
      Inl \<lparr>name = ''Error'', message = message e, errcode = None, errstatus = None\<rparr>"
    using assms by (simp add: getDogPic_result new_Error_def)
  show "snd (getDogPic env w) = snd (getDogPic_try env w)"
    by (simp add: getDogPic_unfold split: prod.splits sum.splits)
  show "error_lines (lines_of (main env) w) = [[JObject [(''asyncError'', JString (message e))]]]"
    using assms by (rule main_error_lines)
qed

theorem caller_gets_fresh_Error_witness:
  "fst (getDogPic_try (demo_env (Inr no_message_response)) (demo_world (Some ''hound''))) =
     Inl \<lparr>name = ''TypeError'',
          message = ''The '' @ [CHR 0x22] @ ''data'' @ [CHR 0x22] @
            '' argument must be of type string or an instance of Buffer, TypedArray, or DataView. Received undefined'',
          errcode = Some ''ERR_INVALID_ARG_TYPE'', errstatus = None\<rparr> \<and>
   fst (getDogPic (demo_env (Inr no_message_response)) (demo_world (Some ''hound''))) =
     Inl \<lparr>name = ''Error'',
          message = ''The '' @ [CHR 0x22] @ ''data'' @ [CHR 0x22] @
            '' argument must be of type string or an instance of Buffer, TypedArray, or DataView. Received undefined'',
          errcode = None, errstatus = None\<rparr> \<and>
   error_lines (lines_of (main (demo_env (Inr no_message_response)))
     (demo_world (Some ''hound''))) =
     [[JObject [(''asyncError'',
         JString (''The '' @ [CHR 0x22] @ ''data'' @ [CHR 0x22] @
           '' argument must be of type string or an instance of Buffer, TypedArray, or DataView. Received undefined''))]]]"
  using caller_gets_fresh_Error [of "demo_env (Inr no_message_response)"
      "demo_world (Some ''hound'')"
      "ERR_INVALID_ARG_TYPE (demo_env (Inr no_message_response)) JUndefined"]
  by (simp add: getDogPic_try_result ERR_INVALID_ARG_TYPE_def)

text \<open>
  C10. The promise of \<^verbatim>\<open>writeFilePro\<close> resolves exactly when the data is a
  string and the write meets no fault, and then always with the string
  \<^verbatim>\<open>success\<close>, whatever the file and the data. That value goes nowhere: a
  successful run of the pipeline function resolves with \<^verbatim>\<open>Step: 2: ready!\<close>,
  and what it and the top-level block print is made of the fixed texts, the breed and
  \<^verbatim>\<open>body.message\<close> only.
\<close>

theorem writer_resolves_with_success:
  "(fst (await_io (writeFilePro env file data) w0) = Inr v \<longleftrightarrow>
      v = ''success'' \<and> (\<exists>s. data = JString s \<and> write_fault env file s = None)) \<and>
   (fst (getDogPic env w) = Inr r \<and>
    fs_read_outcome env (dog_txt env) w = Inr breed \<and>
    superagent_outcome env (breed_url breed) = Inr res \<and>
    prop_message (body res) = Inr m \<longrightarrow>
      r = ''Step: 2: ready!'' \<and>
      lines_of (getDogPic env) w =
        [Console_log [JString ''Dog breed:'', JString breed],
         Console_log [JString ''Dog image URL:'', m],
         Console_log [JString ''Dog image URL saved to dog-image.txt'']] \<and>
      lines_of (main env) w =
        [Console_log [JString ''Step 1: will get dog pics!''],
         Console_log [JString ''Dog breed:'', JString breed],
         Console_log [JString ''Dog image URL:'', m],
         Console_log [JString ''Dog image URL saved to dog-image.txt''],
         Console_log [JString ''Step: 2: ready!''],
         Console_log [JString ''Step 3: done getting dog pics!'']])"
proof (intro conjI impI)
  show "fst (await_io (writeFilePro env file data) w0) = Inr v \<longleftrightarrow>
      v = ''success'' \<and> (\<exists>s. data = JString s \<and> write_fault env file s = None)"
    by (rule await_writeFilePro_resolves)
next
  assume a: "fst (getDogPic env w) = Inr r \<and>
    fs_read_outcome env (dog_txt env) w = Inr breed \<and>
    superagent_outcome env (breed_url breed) = Inr res \<and>
    prop_message (body res) = Inr m"
  then have resolved: "fst (getDogPic_try env w) = Inr r"
    by (simp add: getDogPic_result split: sum.splits)
  then have r: "r = ''Step: 2: ready!''"
    by (rule getDogPic_try_resolved)
  show "r = ''Step: 2: ready!''" by (rule r)
  show "lines_of (getDogPic env) w =
        [Console_log [JString ''Dog breed:'', JString breed],
         Console_log [JString ''Dog image URL:'', m],
         Console_log [JString ''Dog image URL saved to dog-image.txt'']]"
    using a resolved r by (simp add: getDogPic_lines getDogPic_try_lines)
  show "lines_of (main env) w =
        [Console_log [JString ''Step 1: will get dog pics!''],
         Console_log [JString ''Dog breed:'', JString breed],
         Console_log [JString ''Dog image URL:'', m],
         Console_log [JString ''Dog image URL saved to dog-image.txt''],
         Console_log [JString ''Step: 2: ready!''],
         Console_log [JString ''Step 3: done getting dog pics!'']]"
    using a resolved r by (simp add: main_lines getDogPic_try_lines)
qed

theorem writer_resolves_with_success_witness:
  "fst (await_io (writeFilePro (demo_env (Inr ok_response)) ''/app/dog-image.txt''
     (JString ''https://images.dog.ceo/x.jpg'')) (demo_world (Some ''hound''))) = Inr ''success'' \<and>
   fst (getDogPic (demo_env (Inr ok_response)) (demo_world (Some ''hound''))) =
     Inr ''Step: 2: ready!'' \<and>
   lines_of (main (demo_env (Inr ok_response))) (demo_world (Some ''hound'')) =
     [Console_log [JString ''Step 1: will get dog pics!''],
      Console_log [JString ''Dog breed:'', JString ''hound''],
      Console_log [JString ''Dog image URL:'', JString ''https://images.dog.ceo/x.jpg''],
      Console_log [JString ''Dog image URL saved to dog-image.txt''],
      Console_log [JString ''Step: 2: ready!''],
      Console_log [JString ''Step 3: done getting dog pics!'']]"
  using writer_resolves_with_success [of "demo_env (Inr ok_response)" "''/app/dog-image.txt''"
      "JString ''https://images.dog.ceo/x.jpg''" "demo_world (Some ''hound'')" "''success''"
      "demo_world (Some ''hound'')" "''Step: 2: ready!''" "''hound''" ok_response
      "JString ''https://images.dog.ceo/x.jpg''"]
  by (simp add: getDogPic_result getDogPic_try_result)

end
